theory Spec2Isabelle
  imports Main "HOL-Library.Word" "HOL-Library.Sublist"
begin

section \<open>JavaScript values as the component reads them\<close>

text \<open>
  The call interface (\<^verbatim>\<open>CallInterfaceClean.tsx\<close>) reads JSON bodies typed
  \<^verbatim>\<open>Record<string, any>\<close>: any JSON value can sit in any field. A number is carried by
  the text that \<^verbatim>\<open>String(n)\<close> prints for it (\<^verbatim>\<open>0\<close> for both zeros); the pairs of an
  object are its own properties, the first pair of a name being the one that counts;
  \<^verbatim>\<open>undefined\<close> is the value of a property that is not there.
\<close>

datatype jsval =
    JUndefined
  | JNull
  | JBool bool
  | JNum string
  | JStr string
  | JArr "jsval list"
  | JObj "(string \<times> jsval) list"

datatype js_error = TypeError | SyntaxError | NetworkError | Error string

text \<open>\<^verbatim>\<open>Boolean(v)\<close>, the test of \<^verbatim>\<open>if (v)\<close>, \<^verbatim>\<open>v || w\<close> and \<^verbatim>\<open>filter(Boolean)\<close>.\<close>

fun truthy :: "jsval \<Rightarrow> bool" where
  "truthy JUndefined = False"
| "truthy JNull = False"
| "truthy (JBool b) = b"
| "truthy (JNum n) = (n \<noteq> ''0'' \<and> n \<noteq> ''NaN'')"
| "truthy (JStr s) = (s \<noteq> [])"
| "truthy (JArr xs) = True"
| "truthy (JObj kvs) = True"

text \<open>Sequencing of computations that may throw: \<open>Inl\<close> is the exception.\<close>

definition ebind :: "js_error + 'a \<Rightarrow> ('a \<Rightarrow> js_error + 'b) \<Rightarrow> js_error + 'b" where
  "ebind m f = (case m of Inl e \<Rightarrow> Inl e | Inr x \<Rightarrow> f x)"

text \<open>
  \<^verbatim>\<open>a || b\<close>: the left operand is evaluated first; the right one only when the left is
  falsy.
\<close>

definition js_or :: "js_error + jsval \<Rightarrow> js_error + jsval \<Rightarrow> js_error + jsval" where
  "js_or a b = (case a of Inl e \<Rightarrow> Inl e | Inr v \<Rightarrow> if truthy v then Inr v else b)"

text \<open>
  \<^verbatim>\<open>v.k\<close> throws a TypeError on \<^verbatim>\<open>null\<close> and \<^verbatim>\<open>undefined\<close>; \<^verbatim>\<open>v?.k\<close> gives
  \<^verbatim>\<open>undefined\<close> there. None of the names this component reads is defined on a
  prototype, so only an object's own properties can answer.
\<close>

fun own_prop :: "jsval \<Rightarrow> string \<Rightarrow> jsval" where
  "own_prop (JObj kvs) k = (case map_of kvs k of None \<Rightarrow> JUndefined | Some v \<Rightarrow> v)"
| "own_prop v k = JUndefined"

fun get_prop :: "jsval \<Rightarrow> string \<Rightarrow> js_error + jsval" where
  "get_prop JUndefined k = Inl TypeError"
| "get_prop JNull k = Inl TypeError"
| "get_prop v k = Inr (own_prop v k)"


text \<open>\<^verbatim>\<open>ss.join(sep)\<close> on strings.\<close>

fun join_strings :: "string \<Rightarrow> string list \<Rightarrow> string" where
  "join_strings sep [] = []"
| "join_strings sep [s] = s"
| "join_strings sep (s # t # ss) = s @ sep @ join_strings sep (t # ss)"

text \<open>
  \<^verbatim>\<open>String(v)\<close>. An array prints as its elements joined by a comma, \<^verbatim>\<open>null\<close> and
  \<^verbatim>\<open>undefined\<close> elements as nothing. A parsed object prints as \<^verbatim>\<open>[object Object]\<close>
  unless it has an own property \<^verbatim>\<open>toString\<close>, which JSON cannot make callable: then the
  conversion throws.
\<close>

fun js_String :: "jsval \<Rightarrow> js_error + string"
and js_elems :: "jsval list \<Rightarrow> js_error + string list" where
  "js_String JUndefined = Inr ''undefined''"
| "js_String JNull = Inr ''null''"
| "js_String (JBool b) = Inr (if b then ''true'' else ''false'')"
| "js_String (JNum n) = Inr n"
| "js_String (JStr s) = Inr s"
| "js_String (JArr xs) = ebind (js_elems xs) (\<lambda>ss. Inr (join_strings '','' ss))"
| "js_String (JObj kvs) =
     (if map_of kvs ''toString'' = None then Inr ''[object Object]'' else Inl TypeError)"
| "js_elems [] = Inr []"
| "js_elems (x # xs) =
     ebind (if x = JNull \<or> x = JUndefined then Inr [] else js_String x) (\<lambda>s.
     ebind (js_elems xs) (\<lambda>ss. Inr (s # ss)))"

text \<open>\<^verbatim>\<open>xs.join(sep)\<close> on values.\<close>

definition js_join :: "string \<Rightarrow> jsval list \<Rightarrow> js_error + string" where
  "js_join sep xs = ebind (js_elems xs) (\<lambda>ss. Inr (join_strings sep ss))"

section \<open>The browser around the component\<close>

text \<open>
  A \<^verbatim>\<open>Blob\<close> is its bytes and its MIME type; \<^verbatim>\<open>new Blob(parts, {type})\<close> concatenates
  the bytes of the parts.
\<close>

type_synonym byte = "8 word"

datatype blob = Blob (bytes: "byte list") (mime: string)

definition blob_size :: "blob \<Rightarrow> nat" where
  "blob_size b = length (bytes b)"

definition new_Blob :: "blob list \<Rightarrow> string \<Rightarrow> blob" where
  "new_Blob parts ty = Blob (concat (map bytes parts)) ty"

text \<open>
  What a \<^verbatim>\<open>fetch\<close> gives back: the promise rejects (the network failed), or it resolves
  to a response with a status and a body; the body is \<open>None\<close> when \<^verbatim>\<open>res.json()\<close>
  rejects. \<^verbatim>\<open>res.ok\<close> is a status from 200 to 299.
\<close>

datatype fetch_result = Rejected | Response nat "jsval option"

fun ok :: "fetch_result \<Rightarrow> bool" where
  "ok Rejected = False"
| "ok (Response st body) = (200 \<le> st \<and> st \<le> 299)"

datatype request_body = NoBody | AudioForm blob string

datatype recorder_state = Inactive | Recording | Paused

text \<open>
  Everything the component does to the world outside it, in the order it does it: the
  requests it sends, what it writes to the console, the timers it sets, the audio it
  plays, the calls to its recorder, to React's state setters and to its parent. The one
  timeout the component ever sets has the callback \<^verbatim>\<open>() => setIsAISpeaking(false)\<close>.
\<close>

datatype effect =
    Fetch string string request_body
  | ConsoleError string
  | ConsoleWarn string
  | SetInterval nat
  | ClearInterval
  | SetTimeout nat
  | PlayAudio string
  | MrStart nat
  | MrStop
  | OnEndCall
  | SetResponse string
  | SetIsAISpeaking bool
  | SetIsRecording bool
  | SetIpLocation jsval

text \<open>
  The state of one mounted call interface: the four \<^verbatim>\<open>useState\<close> cells, the two refs,
  whether the polling interval is set, and the effects so far.
\<close>

record call_interface =
  isAISpeaking :: bool
  response :: string
  isRecording :: bool
  mediaRecorderRef :: "recorder_state option"
  chunksRef :: "blob list"
  ipLocation :: jsval
  polling :: bool
  effects :: "effect list"

definition initial :: call_interface where
  "initial = \<lparr>isAISpeaking = False, response = [], isRecording = False,
     mediaRecorderRef = None, chunksRef = [], ipLocation = JStr ''Fetching location...'',
     polling = False, effects = []\<rparr>"

definition emit :: "effect \<Rightarrow> call_interface \<Rightarrow> call_interface" where
  "emit e s = s\<lparr>effects := effects s @ [e]\<rparr>"

definition setResponse :: "string \<Rightarrow> call_interface \<Rightarrow> call_interface" where
  "setResponse t s = emit (SetResponse t) (s\<lparr>response := t\<rparr>)"

definition setIsAISpeaking :: "bool \<Rightarrow> call_interface \<Rightarrow> call_interface" where
  "setIsAISpeaking b s = emit (SetIsAISpeaking b) (s\<lparr>isAISpeaking := b\<rparr>)"

definition setIsRecording :: "bool \<Rightarrow> call_interface \<Rightarrow> call_interface" where
  "setIsRecording b s = emit (SetIsRecording b) (s\<lparr>isRecording := b\<rparr>)"

definition setIpLocation :: "jsval \<Rightarrow> call_interface \<Rightarrow> call_interface" where
  "setIpLocation v s = emit (SetIpLocation v) (s\<lparr>ipLocation := v\<rparr>)"

definition backend :: string where
  "backend = ''http://127.0.0.1:5002''"

section \<open>Polling for the latest reply (lines 17 to 34)\<close>

text \<open>
  The effect sets an interval of 2500 ms and its cleanup clears it. Each tick is an async
  callback: it sends the request, and goes on when the request settles.
\<close>

definition poll_mount :: "call_interface \<Rightarrow> call_interface" where
  "poll_mount s = emit (SetInterval 2500) (s\<lparr>polling := True\<rparr>)"

definition poll_unmount :: "call_interface \<Rightarrow> call_interface" where
  "poll_unmount s = emit ClearInterval (s\<lparr>polling := False\<rparr>)"

definition poll_begin :: "call_interface \<Rightarrow> call_interface" where
  "poll_begin s = emit (Fetch ''GET'' (backend @ ''/get_latest_response'') NoBody) s"

text \<open>\<^verbatim>\<open>data.last_response || data.reply || ""\<close>\<close>

definition latest_reply :: "jsval \<Rightarrow> js_error + jsval" where
  "latest_reply data =
     js_or (js_or (get_prop data ''last_response'') (get_prop data ''reply'')) (Inr (JStr []))"

definition speaking_delay :: nat where
  "speaking_delay = 1800"

text \<open>The \<^verbatim>\<open>try\<close> block of the tick, from the moment the request has settled.\<close>

definition poll_try :: "fetch_result \<Rightarrow> call_interface \<Rightarrow> js_error + call_interface" where
  "poll_try r s =
     (case r of
        Rejected \<Rightarrow> Inl NetworkError
      | Response st body \<Rightarrow>
          if \<not> ok r then Inr s
          else (case body of
                  None \<Rightarrow> Inl SyntaxError
                | Some data \<Rightarrow>
                    ebind (latest_reply data) (\<lambda>last.
                      if truthy last
                      then ebind (js_String last) (\<lambda>t.
                             Inr (emit (SetTimeout speaking_delay)
                                   (setIsAISpeaking True (setResponse t s))))
                      else Inr s)))"

definition poll_settle :: "fetch_result \<Rightarrow> call_interface \<Rightarrow> call_interface" where
  "poll_settle r s =
     (case poll_try r s of
        Inl e \<Rightarrow> emit (ConsoleError ''Polling error:'') s
      | Inr s' \<Rightarrow> s')"

text \<open>The callback of the timeout: \<^verbatim>\<open>() => setIsAISpeaking(false)\<close>.\<close>

definition speaking_timeout :: "call_interface \<Rightarrow> call_interface" where
  "speaking_timeout s = setIsAISpeaking False s"

section \<open>Resolving the location (lines 36 to 69)\<close>






text \<open>The same three reads in the remote branch, without the \<^verbatim>\<open>?.\<close>.\<close>

definition remote_geo :: "jsval \<Rightarrow> js_error + jsval" where
  "remote_geo data =
     js_or (js_or (get_prop data ''geolocation'') (get_prop data ''location_info'')) (Inr (JObj []))"

definition remote_city :: "jsval \<Rightarrow> js_error + jsval" where
  "remote_city geo = js_or (js_or (get_prop geo ''city'') (get_prop geo ''city_name'')) (Inr (JStr []))"

definition remote_region :: "jsval \<Rightarrow> js_error + jsval" where
  "remote_region geo =
     js_or (js_or (get_prop geo ''regionName'') (get_prop geo ''region'')) (Inr (JStr []))"

definition remote_country :: "jsval \<Rightarrow> js_error + jsval" where
  "remote_country geo = js_or (get_prop geo ''country'') (Inr (JStr []))"

definition remote_publicIp :: "jsval \<Rightarrow> js_error + jsval" where
  "remote_publicIp data =
     js_or (js_or (get_prop data ''public_ip'') (get_prop data ''ip'')) (Inr (JStr []))"

text \<open>The \<^verbatim>\<open>try\<close> block of the async lookup: the value it passes to \<^verbatim>\<open>setIpLocation\<close>.\<close>

definition remote_try :: "fetch_result \<Rightarrow> js_error + jsval" where
  "remote_try r =
     (case r of
        Rejected \<Rightarrow> Inl NetworkError
      | Response st body \<Rightarrow>
          if \<not> ok r then Inl (Error ''IP fetch failed'')
          else (case body of
                  None \<Rightarrow> Inl SyntaxError
                | Some data \<Rightarrow>
                    ebind (remote_geo data) (\<lambda>geo.
                    ebind (remote_city geo) (\<lambda>city.
                    ebind (remote_region geo) (\<lambda>region.
                    ebind (remote_country geo) (\<lambda>country.
                    ebind (remote_publicIp data) (\<lambda>publicIp.
                      let parts = filter truthy [city, region, country]
                      in if length parts \<noteq> 0
                         then ebind (js_join '', '' parts) (\<lambda>loc. Inr (JStr loc))
                         else js_or (Inr publicIp) (Inr (JStr ''Unknown location'')))))))))"

definition location_settle :: "fetch_result \<Rightarrow> call_interface \<Rightarrow> call_interface" where
  "location_settle r s =
     (case remote_try r of
        Inl e \<Rightarrow> setIpLocation (JStr ''Location unavailable'') s
      | Inr v \<Rightarrow> setIpLocation v s)"



section \<open>Ending the call (lines 71 to 78)\<close>

definition handleEnd_begin :: "call_interface \<Rightarrow> call_interface" where
  "handleEnd_begin s = emit (Fetch ''POST'' (backend @ ''/stop_listening'') NoBody) s"

definition handleEnd_settle :: "fetch_result \<Rightarrow> call_interface \<Rightarrow> call_interface" where
  "handleEnd_settle r s =
     emit OnEndCall (case r of Rejected \<Rightarrow> emit (ConsoleError []) s | Response st body \<Rightarrow> s)"

definition handleEnd :: "fetch_result \<Rightarrow> call_interface \<Rightarrow> call_interface" where
  "handleEnd r s = handleEnd_settle r (handleEnd_begin s)"

section \<open>Recording (lines 80 to 169)\<close>

definition upload_url :: string where
  "upload_url = backend @ ''/upload_audio''"

text \<open>
  \<^verbatim>\<open>startRecording\<close>: the request to \<^verbatim>\<open>/start_listening\<close> may fail without harm;
  \<open>granted\<close> says whether \<^verbatim>\<open>getUserMedia\<close> gave a stream that a recorder accepts.
\<close>

definition startRecording_begin :: "call_interface \<Rightarrow> call_interface" where
  "startRecording_begin s = emit (Fetch ''POST'' (backend @ ''/start_listening'') NoBody) s"

definition startRecording_settle :: "fetch_result \<Rightarrow> bool \<Rightarrow> call_interface \<Rightarrow> call_interface" where
  "startRecording_settle r granted s =
     (let s1 = (case r of
                  Rejected \<Rightarrow> emit (ConsoleWarn ''start_listening failed:'') s
                | Response st body \<Rightarrow> s)
      in if granted
         then setIsRecording True ((emit (MrStart 2500) s1)\<lparr>mediaRecorderRef := Some Recording\<rparr>)
         else emit (ConsoleError []) s1)"

text \<open>
  \<^verbatim>\<open>stopRecording\<close>: \<^verbatim>\<open>mr.stop()\<close> is only called on a recorder that is not inactive,
  where it does not throw; the recorder is inactive from then on, and the browser fires
  \<^verbatim>\<open>dataavailable\<close> with what is left and then \<^verbatim>\<open>stop\<close>.
\<close>

definition stopRecording :: "call_interface \<Rightarrow> call_interface" where
  "stopRecording s =
     setIsRecording False
       (case mediaRecorderRef s of
          None \<Rightarrow> s
        | Some st \<Rightarrow>
            if st \<noteq> Inactive then emit MrStop (s\<lparr>mediaRecorderRef := Some Inactive\<rparr>) else s)"

text \<open>
  \<^verbatim>\<open>mr.ondataavailable\<close> (lines 93 to 123), up to the \<^verbatim>\<open>await fetch\<close>: nothing in
  this part throws.
\<close>

definition ondataavailable_begin :: "blob option \<Rightarrow> call_interface \<Rightarrow> call_interface" where
  "ondataavailable_begin ev_data s =
     (case ev_data of
        None \<Rightarrow> s
      | Some chunk \<Rightarrow>
          if blob_size chunk = 0 then s
          else emit (Fetch ''POST'' upload_url (AudioForm chunk ''chunk.webm''))
                 (s\<lparr>chunksRef := chunksRef s @ [chunk]\<rparr>))"

text \<open>
  Lines 110 to 119 and again 134 to 143: what both handlers do with the body of a good
  response. \<open>played\<close> says whether \<^verbatim>\<open>audio.play()\<close> resolves; its failure, and that of
  making the URL a string, stay inside the inner \<^verbatim>\<open>try\<close>.
\<close>

definition use_reply :: "jsval \<Rightarrow> bool \<Rightarrow> call_interface \<Rightarrow> js_error + call_interface" where
  "use_reply data played s =
     ebind (get_prop data ''reply'') (\<lambda>reply.
     ebind (if truthy reply then ebind (js_String reply) (\<lambda>t. Inr (setResponse t s)) else Inr s)
       (\<lambda>s1.
     ebind (get_prop data ''audio_url'') (\<lambda>audio_url.
       Inr (if truthy audio_url
            then (case js_String audio_url of
                    Inl e \<Rightarrow> emit (ConsoleError ''Failed to play audio'') s1
                  | Inr url \<Rightarrow>
                      if played then emit (PlayAudio url) s1
                      else emit (ConsoleError ''Failed to play audio'') (emit (PlayAudio url) s1))
            else s1))))"

definition ondataavailable_try ::
  "fetch_result \<Rightarrow> bool \<Rightarrow> call_interface \<Rightarrow> js_error + call_interface" where
  "ondataavailable_try r played s =
     (case r of
        Rejected \<Rightarrow> Inl NetworkError
      | Response st body \<Rightarrow>
          if \<not> ok r then Inr (emit (ConsoleWarn ''chunk upload failed'') s)
          else (case body of
                  None \<Rightarrow> Inl SyntaxError
                | Some data \<Rightarrow> use_reply data played s))"

definition ondataavailable_settle ::
  "fetch_result \<Rightarrow> bool \<Rightarrow> call_interface \<Rightarrow> call_interface" where
  "ondataavailable_settle r played s =
     (case ondataavailable_try r played s of
        Inl e \<Rightarrow> emit (ConsoleError ''ondataavailable upload error:'') s
      | Inr s' \<Rightarrow> s')"

text \<open>
  \<^verbatim>\<open>mr.onstop\<close> (lines 126 to 150) waits three times: for the final upload (line 132),
  for the body of the answer (line 134) and for the playback (line 139). Its
  \<^verbatim>\<open>finally\<close> (line 148) empties the buffer of chunks when the handler ends, wherever
  that is, and not before: fragments and the \<^verbatim>\<open>stop\<close> of another take can come while it
  waits. So the handler is four runs.
\<close>

definition onstop_finally :: "call_interface \<Rightarrow> call_interface" where
  "onstop_finally s = s\<lparr>chunksRef := []\<rparr>"

definition onstop_catch :: "call_interface \<Rightarrow> call_interface" where
  "onstop_catch s = onstop_finally (emit (ConsoleError ''final upload error:'') s)"

text \<open>
  Up to \<^verbatim>\<open>await fetch\<close>: with an empty buffer the handler returns at once, through its
  \<^verbatim>\<open>finally\<close>; otherwise it sends the final upload.
\<close>

definition onstop_begin :: "call_interface \<Rightarrow> call_interface" where
  "onstop_begin s =
     (if length (chunksRef s) = 0 then s\<lparr>chunksRef := []\<rparr>
      else emit (Fetch ''POST'' upload_url
                  (AudioForm (new_Blob (chunksRef s) ''audio/webm'') ''recording_final.webm'')) s)"

text \<open>
  The final upload has settled: \<open>res\<close> is the status of the answer, \<open>None\<close> when the
  request was rejected. A rejection, and the \<^verbatim>\<open>throw\<close> of line 133 on a status outside
  200 to 299, end the handler; otherwise it waits for \<^verbatim>\<open>res.json()\<close>.
\<close>

definition ok_status :: "nat \<Rightarrow> bool" where
  "ok_status st = (200 \<le> st \<and> st \<le> 299)"

definition onstop_fetched :: "nat option \<Rightarrow> call_interface \<Rightarrow> call_interface" where
  "onstop_fetched res s =
     (case res of
        None \<Rightarrow> onstop_catch s
      | Some st \<Rightarrow> if \<not> ok_status st then onstop_catch s else s)"

text \<open>
  Line 135, \<^verbatim>\<open>if (data.reply) setResponse(String(data.reply))\<close>: first the text to show,
  if any, then the call.
\<close>

definition reply_text :: "jsval \<Rightarrow> js_error + string option" where
  "reply_text data =
     ebind (get_prop data ''reply'') (\<lambda>reply.
       if truthy reply then ebind (js_String reply) (\<lambda>t. Inr (Some t)) else Inr None)"

definition show_reply :: "jsval \<Rightarrow> call_interface \<Rightarrow> js_error + call_interface" where
  "show_reply data s =
     ebind (reply_text data) (\<lambda>shown.
       Inr (case shown of None \<Rightarrow> s | Some t \<Rightarrow> setResponse t s))"

text \<open>
  The body has settled, \<open>None\<close> when \<^verbatim>\<open>res.json()\<close> rejects. The handler ends here
  unless it gets as far as \<^verbatim>\<open>await audio.play()\<close>.
\<close>

definition onstop_body :: "jsval option \<Rightarrow> call_interface \<Rightarrow> call_interface" where
  "onstop_body body s =
     (case body of
        None \<Rightarrow> onstop_catch s
      | Some data \<Rightarrow>
          (case show_reply data s of
             Inl e \<Rightarrow> onstop_catch s
           | Inr s1 \<Rightarrow>
               (case get_prop data ''audio_url'' of
                  Inl e \<Rightarrow> onstop_catch s1
                | Inr audio_url \<Rightarrow>
                    if truthy audio_url
                    then (case js_String audio_url of
                            Inl e \<Rightarrow> onstop_finally (emit (ConsoleError ''Failed to play audio'') s1)
                          | Inr url \<Rightarrow> emit (PlayAudio url) s1)
                    else onstop_finally s1)))"

text \<open>The playback has settled; \<open>played\<close> says whether \<^verbatim>\<open>audio.play()\<close> resolved.\<close>

definition onstop_played :: "bool \<Rightarrow> call_interface \<Rightarrow> call_interface" where
  "onstop_played played s =
     onstop_finally (if played then s else emit (ConsoleError ''Failed to play audio'') s)"

section \<open>The component as an event loop\<close>

text \<open>
  JavaScript runs one callback at a time, and an async callback gives way at each
  \<^verbatim>\<open>await\<close>. An event is one such run: a timer or the recorder firing, a click, or a
  request settling, which resumes the callback that sent it. The runs of different
  callbacks interleave freely. For the tick of the poll and for \<^verbatim>\<open>ondataavailable\<close>,
  what the callback does once its request has settled is taken as one run, though it
  awaits again (the body, the playback): all it does from there is to set the response
  text, start the playback and write to the console. \<^verbatim>\<open>onstop\<close> is resumed by three
  events, one for each \<^verbatim>\<open>await\<close>, since its \<^verbatim>\<open>finally\<close> writes the buffer that
  the other callbacks read.
\<close>

datatype event =
    IntervalTick
  | PollSettled fetch_result
  | SpeakingTimeout
  | ClickRecord
  | StartSettled fetch_result bool
  | DataAvailable "blob option"
  | ChunkUploadSettled fetch_result bool
  | RecorderStop
  | FinalUploadSettled "nat option"
  | FinalBodySettled "jsval option"
  | FinalPlaySettled bool
  | ClickEndCall
  | StopListeningSettled fetch_result
  | IpSettled fetch_result
  | Unmount

fun step :: "call_interface \<Rightarrow> event \<Rightarrow> call_interface" where
  "step s IntervalTick = (if polling s then poll_begin s else s)"
| "step s (PollSettled r) = poll_settle r s"
| "step s SpeakingTimeout = speaking_timeout s"
| "step s ClickRecord = (if isRecording s then stopRecording s else startRecording_begin s)"
| "step s (StartSettled r granted) = startRecording_settle r granted s"
| "step s (DataAvailable ev_data) = ondataavailable_begin ev_data s"
| "step s (ChunkUploadSettled r played) = ondataavailable_settle r played s"
| "step s RecorderStop = onstop_begin s"
| "step s (FinalUploadSettled res) = onstop_fetched res s"
| "step s (FinalBodySettled body) = onstop_body body s"
| "step s (FinalPlaySettled played) = onstop_played played s"
| "step s ClickEndCall = handleEnd_begin s"
| "step s (StopListeningSettled r) = handleEnd_settle r s"
| "step s (IpSettled r) = location_settle r s"
| "step s Unmount = poll_unmount s"

definition run :: "call_interface \<Rightarrow> event list \<Rightarrow> call_interface" where
  "run s evs = foldl step s evs"

text \<open>The uploads among some effects, each with its file and file name.\<close>

fun uploads :: "effect list \<Rightarrow> (blob \<times> string) list" where
  "uploads [] = []"
| "uploads (Fetch m url (AudioForm b name) # es) =
     (if m = ''POST'' \<and> url = upload_url then (b, name) # uploads es else uploads es)"
| "uploads (e # es) = uploads es"

text \<open>The fragments of some events that the recorder handed over with something in them.\<close>

fun fragments :: "event list \<Rightarrow> blob list" where
  "fragments [] = []"
| "fragments (DataAvailable (Some chunk) # evs) =
     (if blob_size chunk = 0 then fragments evs else chunk # fragments evs)"
| "fragments (ev # evs) = fragments evs"

text \<open>
  Whether \<^verbatim>\<open>onstop\<close>, given this body, gets as far as \<^verbatim>\<open>await audio.play()\<close>:
  the body was read, showing the reply did not throw, and \<^verbatim>\<open>audio_url\<close> is truthy and
  can be made a string.
\<close>

definition awaits_playback :: "jsval option \<Rightarrow> bool" where
  "awaits_playback body =
     (case body of
        None \<Rightarrow> False
      | Some data \<Rightarrow>
          (case reply_text data of
             Inl e \<Rightarrow> False
           | Inr shown \<Rightarrow>
               (case get_prop data ''audio_url'' of
                  Inl e \<Rightarrow> False
                | Inr audio_url \<Rightarrow>
                    truthy audio_url \<and>
                    (case js_String audio_url of Inl e \<Rightarrow> False | Inr url \<Rightarrow> True))))"

text \<open>
  The events with which a run of \<^verbatim>\<open>onstop\<close> that had sent its upload ends, and with
  it the finalize step of a take: the upload rejected or answered outside 200 to 299, a
  body after which there is no playback to wait for, and the playback settled.
\<close>

fun finalize_ends :: "event \<Rightarrow> bool" where
  "finalize_ends (FinalUploadSettled res) =
     (case res of None \<Rightarrow> True | Some st \<Rightarrow> \<not> ok_status st)"
| "finalize_ends (FinalBodySettled body) = (\<not> awaits_playback body)"
| "finalize_ends (FinalPlaySettled played) = True"
| "finalize_ends ev = False"

text \<open>
  The events that can come while one take of the recorder lasts and leave it whole:
  every one but the recorder's \<^verbatim>\<open>stop\<close>, which ends the take, and the end of the
  finalize step of an earlier take, which empties the buffer under it.
\<close>

fun during_take :: "event \<Rightarrow> bool" where
  "during_take RecorderStop = False"
| "during_take ev = (\<not> finalize_ends ev)"

section \<open>What each handler leaves alone\<close>

lemma emit_simps:
  "effects (emit e s) = effects s @ [e]"
  "chunksRef (emit e s) = chunksRef s"
  "response (emit e s) = response s"
  "isAISpeaking (emit e s) = isAISpeaking s"
  "isRecording (emit e s) = isRecording s"
  "mediaRecorderRef (emit e s) = mediaRecorderRef s"
  "ipLocation (emit e s) = ipLocation s"
  "polling (emit e s) = polling s"
  by (simp_all add: emit_def)

lemmas setter_defs = setResponse_def setIsAISpeaking_def setIsRecording_def setIpLocation_def

lemma uploads_append: "uploads (xs @ ys) = uploads xs @ uploads ys"
  by (induction xs rule: uploads.induct) auto

lemma use_reply_keeps:
  "use_reply data played s = Inr s' \<Longrightarrow>
     chunksRef s' = chunksRef s \<and> uploads (effects s') = uploads (effects s)"
  by (auto simp: use_reply_def ebind_def emit_simps setter_defs uploads_append
           split: sum.splits if_splits)

lemma ondataavailable_settle_keeps:
  "chunksRef (ondataavailable_settle r played s) = chunksRef s"
  "uploads (effects (ondataavailable_settle r played s)) = uploads (effects s)"
  by (auto simp: ondataavailable_settle_def ondataavailable_try_def emit_simps uploads_append
           split: sum.splits fetch_result.splits if_splits option.splits dest: use_reply_keeps)

lemma poll_settle_keeps:
  "chunksRef (poll_settle r s) = chunksRef s"
  "uploads (effects (poll_settle r s)) = uploads (effects s)"
  by (auto simp: poll_settle_def poll_try_def ebind_def emit_simps setter_defs uploads_append
           split: sum.splits fetch_result.splits if_splits option.splits)

lemma startRecording_settle_keeps:
  "chunksRef (startRecording_settle r granted s) = chunksRef s"
  "uploads (effects (startRecording_settle r granted s)) = uploads (effects s)"
  by (auto simp: startRecording_settle_def Let_def emit_simps setter_defs uploads_append emit_def
           split: fetch_result.splits)

lemma stopRecording_keeps:
  "chunksRef (stopRecording s) = chunksRef s"
  "uploads (effects (stopRecording s)) = uploads (effects s)"
  by (auto simp: stopRecording_def emit_simps setter_defs uploads_append emit_def
           split: option.splits)

lemma handleEnd_settle_keeps:
  "chunksRef (handleEnd_settle r s) = chunksRef s"
  "uploads (effects (handleEnd_settle r s)) = uploads (effects s)"
  by (auto simp: handleEnd_settle_def emit_simps uploads_append split: fetch_result.splits)

lemma location_settle_keeps:
  "chunksRef (location_settle r s) = chunksRef s"
  "uploads (effects (location_settle r s)) = uploads (effects s)"
  by (auto simp: location_settle_def emit_simps setter_defs uploads_append split: sum.splits)

lemma ondataavailable_begin_adds:
  "chunksRef (ondataavailable_begin d s) = chunksRef s @ fragments [DataAvailable d]"
  "uploads (effects (ondataavailable_begin d s)) =
     uploads (effects s) @ map (\<lambda>c. (c, ''chunk.webm'')) (fragments [DataAvailable d])"
  by (auto simp: ondataavailable_begin_def emit_simps uploads_append split: option.splits)

lemma onstop_finally_simps:
  "chunksRef (onstop_finally s) = []"
  "effects (onstop_finally s) = effects s"
  by (simp_all add: onstop_finally_def)

lemma onstop_begin_buffer: "chunksRef (onstop_begin s) = chunksRef s"
  by (simp add: onstop_begin_def emit_simps)

lemma onstop_fetched_keeps:
  "chunksRef (onstop_fetched res s) =
     (if finalize_ends (FinalUploadSettled res) then [] else chunksRef s)"
  "uploads (effects (onstop_fetched res s)) = uploads (effects s)"
  by (auto simp: onstop_fetched_def onstop_catch_def onstop_finally_simps emit_simps
        uploads_append split: option.splits)

lemma show_reply_keeps:
  "show_reply data s = Inr s1 \<Longrightarrow>
     chunksRef s1 = chunksRef s \<and> uploads (effects s1) = uploads (effects s)"
  by (auto simp: show_reply_def ebind_def emit_simps setter_defs uploads_append
           split: sum.splits option.splits)

lemma onstop_body_keeps:
  "chunksRef (onstop_body body s) = (if awaits_playback body then chunksRef s else [])"
  "uploads (effects (onstop_body body s)) = uploads (effects s)"
proof -
  show "chunksRef (onstop_body body s) = (if awaits_playback body then chunksRef s else [])"
  proof (cases body)
    case None
    then show ?thesis
      by (simp add: onstop_body_def awaits_playback_def onstop_catch_def onstop_finally_simps)
  next
    case (Some data)
    show ?thesis
    proof (cases "reply_text data")
      case (Inl e)
      then show ?thesis using Some
        by (simp add: onstop_body_def awaits_playback_def show_reply_def ebind_def
              onstop_catch_def onstop_finally_simps)
    next
      case (Inr shown)
      then obtain s1 where s1: "show_reply data s = Inr s1"
        by (simp add: show_reply_def ebind_def)
      with show_reply_keeps have "chunksRef s1 = chunksRef s" by blast
      then show ?thesis using Some Inr s1
        by (auto simp: onstop_body_def awaits_playback_def onstop_catch_def
              onstop_finally_simps emit_simps split: sum.splits)
    qed
  qed
  show "uploads (effects (onstop_body body s)) = uploads (effects s)"
    by (auto simp: onstop_body_def onstop_catch_def onstop_finally_simps emit_simps
          uploads_append split: option.splits sum.splits dest: show_reply_keeps)
qed

lemma onstop_played_keeps:
  "chunksRef (onstop_played played s) = []"
  "uploads (effects (onstop_played played s)) = uploads (effects s)"
  by (simp_all add: onstop_played_def onstop_finally_simps emit_simps uploads_append)

lemma step_buffer:
  "chunksRef (step s ev) = (if finalize_ends ev then [] else chunksRef s @ fragments [ev])"
  by (cases ev; simp add: ondataavailable_begin_adds ondataavailable_settle_keeps
        poll_settle_keeps startRecording_settle_keeps stopRecording_keeps handleEnd_settle_keeps
        location_settle_keeps onstop_begin_buffer onstop_fetched_keeps onstop_body_keeps
        onstop_played_keeps poll_unmount_def
        poll_begin_def speaking_timeout_def startRecording_begin_def handleEnd_begin_def
        emit_simps setter_defs)

lemma step_uploads:
  "ev \<noteq> RecorderStop \<Longrightarrow>
     uploads (effects (step s ev)) =
       uploads (effects s) @ map (\<lambda>c. (c, ''chunk.webm'')) (fragments [ev])"
  by (cases ev; simp add: ondataavailable_begin_adds ondataavailable_settle_keeps
        poll_settle_keeps startRecording_settle_keeps stopRecording_keeps handleEnd_settle_keeps
        location_settle_keeps onstop_fetched_keeps onstop_body_keeps
        onstop_played_keeps poll_unmount_def
        poll_begin_def speaking_timeout_def startRecording_begin_def handleEnd_begin_def
        emit_simps setter_defs uploads_append)

lemma step_during_take:
  assumes "during_take ev"
  shows "chunksRef (step s ev) = chunksRef s @ fragments [ev]"
    and "uploads (effects (step s ev)) =
           uploads (effects s) @ map (\<lambda>c. (c, ''chunk.webm'')) (fragments [ev])"
proof -
  from assms have "\<not> finalize_ends ev" and "ev \<noteq> RecorderStop"
    by (cases ev; simp)+
  then show "chunksRef (step s ev) = chunksRef s @ fragments [ev]"
    and "uploads (effects (step s ev)) =
           uploads (effects s) @ map (\<lambda>c. (c, ''chunk.webm'')) (fragments [ev])"
    by (simp_all add: step_buffer step_uploads)
qed

lemma fragments_append: "fragments (xs @ ys) = fragments xs @ fragments ys"
  by (induction xs rule: fragments.induct) auto

lemma run_during_take:
  "list_all during_take evs \<Longrightarrow>
     chunksRef (run s evs) = chunksRef s @ fragments evs \<and>
     uploads (effects (run s evs)) =
       uploads (effects s) @ map (\<lambda>c. (c, ''chunk.webm'')) (fragments evs)"
proof (induction evs arbitrary: s)
  case Nil
  then show ?case by (simp add: run_def)
next
  case (Cons ev evs)
  have f: "fragments (ev # evs) = fragments [ev] @ fragments evs"
    using fragments_append[of "[ev]" evs] by simp
  from Cons.prems have d: "during_take ev" and r: "list_all during_take evs" by simp_all
  have "run s (ev # evs) = run (step s ev) evs" by (simp add: run_def)
  with Cons.IH[OF r, of "step s ev"] step_during_take[OF d, of s] f
  show ?case by simp
qed

lemma run_snoc: "run s (evs @ [ev]) = step (run s evs) ev"
  by (simp add: run_def)


lemma stop_uploads:
  "uploads (effects (onstop_begin s)) =
     uploads (effects s) @
     (if chunksRef s = [] then []
      else [(new_Blob (chunksRef s) ''audio/webm'', ''recording_final.webm'')])"
  by (simp add: onstop_begin_def emit_simps uploads_append upload_url_def)

lemma take_then_stop:
  assumes "list_all during_take evs"
  shows "uploads (effects (run s (evs @ [RecorderStop]))) =
           uploads (effects s) @ map (\<lambda>c. (c, ''chunk.webm'')) (fragments evs) @
           (if chunksRef s @ fragments evs = [] then []
            else [(new_Blob (chunksRef s @ fragments evs) ''audio/webm'', ''recording_final.webm'')])"
  using run_during_take[OF assms, of s]
  by (simp add: run_snoc stop_uploads)


section \<open>Fragments and the final upload\<close>

text \<open>
  Claim C9. A fragment that is \<^verbatim>\<open>null\<close> or has size zero changes nothing: it is not
  uploaded and not added to the buffer of chunks. When the recorder stops on an empty
  buffer, nothing changes either, so that no final upload is sent; this is the case of a
  take, begun on an empty buffer, in which no fragment had anything in it.
\<close>

theorem empty_fragment_and_empty_buffer:
  "(ev_data = None \<or> ev_data = Some chunk \<and> blob_size chunk = 0
      \<longrightarrow> step s (DataAvailable ev_data) = s) \<and>
   (chunksRef s = [] \<longrightarrow> step s RecorderStop = s) \<and>
   (list_all during_take evs \<and> chunksRef s = [] \<and> fragments evs = []
      \<longrightarrow> uploads (effects (run s (evs @ [RecorderStop]))) = uploads (effects s) \<and>
          chunksRef (run s (evs @ [RecorderStop])) = [])"
proof (intro conjI impI)
  assume "ev_data = None \<or> ev_data = Some chunk \<and> blob_size chunk = 0"
  then show "step s (DataAvailable ev_data) = s"
    by (auto simp: ondataavailable_begin_def)
next
  assume "chunksRef s = []"
  then show "step s RecorderStop = s"
    by (simp add: onstop_begin_def)
next
  assume a: "list_all during_take evs \<and> chunksRef s = [] \<and> fragments evs = []"
  then show "uploads (effects (run s (evs @ [RecorderStop]))) = uploads (effects s)"
    using take_then_stop[of evs s] by simp
  from a have "chunksRef (run s evs) = []"
    using run_during_take[of evs s] by simp
  then show "chunksRef (run s (evs @ [RecorderStop])) = []"
    by (simp add: run_snoc onstop_begin_def)
qed

theorem empty_fragment_and_empty_buffer_witness:
  "step initial (DataAvailable None) = initial \<and>
   blob_size (Blob [] ''audio/webm'') = 0 \<and>
   step initial (DataAvailable (Some (Blob [] ''audio/webm''))) = initial \<and>
   chunksRef initial = [] \<and>
   step initial RecorderStop = initial \<and>
   list_all during_take [DataAvailable (Some (Blob [] ''audio/webm'')), SpeakingTimeout] \<and>
   fragments [DataAvailable (Some (Blob [] ''audio/webm'')), SpeakingTimeout] = [] \<and>
   uploads (effects (run initial
     ([DataAvailable (Some (Blob [] ''audio/webm'')), SpeakingTimeout] @ [RecorderStop]))) = []"
  using empty_fragment_and_empty_buffer[of None "Blob [] []" initial "[]"]
    empty_fragment_and_empty_buffer[of "Some (Blob [] ''audio/webm'')" "Blob [] ''audio/webm''"
      initial "[DataAvailable (Some (Blob [] ''audio/webm'')), SpeakingTimeout]"]
  by (simp add: blob_size_def initial_def)




text \<open>
  Why no finalize step may end inside the take: the \<^verbatim>\<open>finally\<close> of the earlier
  handler empties the buffer under it. Here a second take begins while the first waits for
  the body of its final upload; it hands over two fragments, and its final upload carries
  the second one only.
\<close>

lemma early_retake_loses_fragment:
  "\<not> during_take (FinalBodySettled (Some (JObj []))) \<and>
   uploads (effects (run initial
     [DataAvailable (Some (Blob [1] ''audio/webm'')), RecorderStop,
      FinalUploadSettled (Some 200),
      DataAvailable (Some (Blob [2] ''audio/webm'')), FinalBodySettled (Some (JObj [])),
      DataAvailable (Some (Blob [3] ''audio/webm'')), RecorderStop])) =
     [(Blob [1] ''audio/webm'', ''chunk.webm''), (Blob [1] ''audio/webm'', ''recording_final.webm''),
      (Blob [2] ''audio/webm'', ''chunk.webm''), (Blob [3] ''audio/webm'', ''chunk.webm''),
      (Blob [3] ''audio/webm'', ''recording_final.webm'')]"
  by (simp add: run_def blob_size_def initial_def ondataavailable_begin_def onstop_begin_def
        onstop_fetched_def onstop_body_def onstop_catch_def onstop_finally_def show_reply_def
        reply_text_def awaits_playback_def ok_status_def ebind_def emit_def new_Blob_def
        upload_url_def backend_def)

text \<open>
  Claim C4. When the upload of a fragment is rejected or answered outside 200 to 299, its
  handler ends there: the state is as before but for one line on the console, so that
  the failure is caught and no request is sent again. Whatever comes later in the take,
  the chunk uploads sent from then on are exactly the later fragments, once each.
\<close>

theorem failed_fragment_upload:
  assumes "\<not> ok r"
  shows "ondataavailable_settle r played s =
           emit (if r = Rejected then ConsoleError ''ondataavailable upload error:''
                 else ConsoleWarn ''chunk upload failed'') s \<and>
         uploads (effects (ondataavailable_settle r played s)) = uploads (effects s) \<and>
         (list_all during_take evs \<longrightarrow>
            uploads (effects (run (ondataavailable_settle r played s) evs)) =
              uploads (effects s) @ map (\<lambda>c. (c, ''chunk.webm'')) (fragments evs))"
proof (intro conjI impI)
  show "ondataavailable_settle r played s =
          emit (if r = Rejected then ConsoleError ''ondataavailable upload error:''
                else ConsoleWarn ''chunk upload failed'') s"
    using assms
    by (cases r) (simp_all add: ondataavailable_settle_def ondataavailable_try_def)
  show "uploads (effects (ondataavailable_settle r played s)) = uploads (effects s)"
    by (rule ondataavailable_settle_keeps)
  assume "list_all during_take evs"
  then show "uploads (effects (run (ondataavailable_settle r played s) evs)) =
               uploads (effects s) @ map (\<lambda>c. (c, ''chunk.webm'')) (fragments evs)"
    using run_during_take[of evs "ondataavailable_settle r played s"]
    by (simp add: ondataavailable_settle_keeps)
qed

theorem failed_fragment_upload_witness:
  "\<not> ok (Response 500 None) \<and> \<not> ok Rejected \<and>
   effects (run initial
     [DataAvailable (Some (Blob [1, 2] ''audio/webm'')), ChunkUploadSettled (Response 500 None) True]) =
     [Fetch ''POST'' upload_url (AudioForm (Blob [1, 2] ''audio/webm'') ''chunk.webm''),
      ConsoleWarn ''chunk upload failed''] \<and>
   list_all during_take [DataAvailable (Some (Blob [3] ''audio/webm''))] \<and>
   uploads (effects (run
     (ondataavailable_settle Rejected True
        (run initial [DataAvailable (Some (Blob [1, 2] ''audio/webm''))]))
     [DataAvailable (Some (Blob [3] ''audio/webm''))])) =
     [(Blob [1, 2] ''audio/webm'', ''chunk.webm''), (Blob [3] ''audio/webm'', ''chunk.webm'')]"
  using failed_fragment_upload[of "Response 500 None" True
      "run initial [DataAvailable (Some (Blob [1, 2] ''audio/webm''))]" "[]"]
    failed_fragment_upload[of Rejected True
      "run initial [DataAvailable (Some (Blob [1, 2] ''audio/webm''))]"
      "[DataAvailable (Some (Blob [3] ''audio/webm''))]"]
  by (simp add: run_def blob_size_def initial_def ondataavailable_begin_def emit_def
        upload_url_def backend_def)




section \<open>The polling channel\<close>

lemma poll_settle_reply:
  assumes "ok (Response st (Some data))"
    and "get_prop data ''last_response'' = Inr (JStr t)" and "t \<noteq> []"
  shows "poll_settle (Response st (Some data)) s =
           emit (SetTimeout speaking_delay) (setIsAISpeaking True (setResponse t s))"
  using assms
  by (simp add: poll_settle_def poll_try_def latest_reply_def js_or_def ebind_def)

lemma poll_settle_no_reply:
  assumes "ok (Response st (Some data))"
    and "get_prop data ''last_response'' = Inr a" and "\<not> truthy a"
    and "get_prop data ''reply'' = Inr b" and "\<not> truthy b"
  shows "poll_settle (Response st (Some data)) s = s"
  using assms
  by (simp add: poll_settle_def poll_try_def latest_reply_def js_or_def ebind_def)

lemma poll_settle_failed:
  assumes "\<not> ok r"
  shows "poll_settle r s = (if r = Rejected then emit (ConsoleError ''Polling error:'') s else s)"
  using assms by (cases r) (simp_all add: poll_settle_def poll_try_def)

lemma poll_settle_fallback:
  assumes "ok (Response st (Some data))"
    and "get_prop data ''last_response'' = Inr a" and "\<not> truthy a"
    and "get_prop data ''reply'' = Inr (JStr t)" and "t \<noteq> []"
  shows "poll_settle (Response st (Some data)) s =
           emit (SetTimeout speaking_delay) (setIsAISpeaking True (setResponse t s))"
  using assms
  by (simp add: poll_settle_def poll_try_def latest_reply_def js_or_def ebind_def)

text \<open>
  Claim C2. The reply text of a poll result is its \<^verbatim>\<open>last_response\<close>, and its
  \<^verbatim>\<open>reply\<close> when that is empty or absent. When \<^verbatim>\<open>last_response\<close> is a string that is
  not empty, the handler sets the response text to it, sets the speaking indicator, and
  sets a timeout of 1800 ms, which lies between 1.8 and 2.0 seconds and whose callback
  clears the indicator. It does the same with \<^verbatim>\<open>reply\<close> when \<^verbatim>\<open>last_response\<close>
  is empty or absent and \<^verbatim>\<open>reply\<close> is a string that is not empty. When both fields
  are empty or absent, the handler changes nothing.
\<close>

theorem poll_reply:
  "(ok (Response st (Some data)) \<and> get_prop data ''last_response'' = Inr (JStr t) \<and> t \<noteq> []
      \<longrightarrow> step s (PollSettled (Response st (Some data))) =
            emit (SetTimeout 1800) (setIsAISpeaking True (setResponse t s)) \<and>
          response (step s (PollSettled (Response st (Some data)))) = t \<and>
          isAISpeaking (step s (PollSettled (Response st (Some data)))) \<and>
          effects (step s (PollSettled (Response st (Some data)))) =
            effects s @ [SetResponse t, SetIsAISpeaking True, SetTimeout speaking_delay] \<and>
          1800 \<le> speaking_delay \<and> speaking_delay \<le> 2000 \<and>
          \<not> isAISpeaking (run s [PollSettled (Response st (Some data)), SpeakingTimeout])) \<and>
   (ok (Response st (Some data)) \<and>
    get_prop data ''last_response'' = Inr a \<and> \<not> truthy a \<and>
    get_prop data ''reply'' = Inr (JStr t) \<and> t \<noteq> []
      \<longrightarrow> step s (PollSettled (Response st (Some data))) =
            emit (SetTimeout 1800) (setIsAISpeaking True (setResponse t s)) \<and>
          effects (step s (PollSettled (Response st (Some data)))) =
            effects s @ [SetResponse t, SetIsAISpeaking True, SetTimeout speaking_delay]) \<and>
   (ok (Response st (Some data)) \<and>
    get_prop data ''last_response'' = Inr a \<and> \<not> truthy a \<and>
    get_prop data ''reply'' = Inr b \<and> \<not> truthy b
      \<longrightarrow> step s (PollSettled (Response st (Some data))) = s)"
proof (intro conjI impI)
  assume h: "ok (Response st (Some data)) \<and> get_prop data ''last_response'' = Inr (JStr t) \<and> t \<noteq> []"
  then have e: "poll_settle (Response st (Some data)) s =
                  emit (SetTimeout speaking_delay) (setIsAISpeaking True (setResponse t s))"
    using poll_settle_reply[of st data t s] by simp
  show "step s (PollSettled (Response st (Some data))) =
          emit (SetTimeout 1800) (setIsAISpeaking True (setResponse t s))"
    using e by (simp add: speaking_delay_def)
  show "response (step s (PollSettled (Response st (Some data)))) = t"
    using e by (simp add: emit_simps setter_defs)
  show "isAISpeaking (step s (PollSettled (Response st (Some data))))"
    using e by (simp add: emit_simps setter_defs)
  show "effects (step s (PollSettled (Response st (Some data)))) =
          effects s @ [SetResponse t, SetIsAISpeaking True, SetTimeout speaking_delay]"
    using e by (simp add: emit_simps setter_defs)
  show "1800 \<le> speaking_delay" and "speaking_delay \<le> 2000"
    by (simp_all add: speaking_delay_def)
  show "\<not> isAISpeaking (run s [PollSettled (Response st (Some data)), SpeakingTimeout])"
    by (simp add: run_def speaking_timeout_def emit_simps setter_defs)
next
  assume "ok (Response st (Some data)) \<and>
    get_prop data ''last_response'' = Inr a \<and> \<not> truthy a \<and>
    get_prop data ''reply'' = Inr (JStr t) \<and> t \<noteq> []"
  then have e: "poll_settle (Response st (Some data)) s =
                  emit (SetTimeout speaking_delay) (setIsAISpeaking True (setResponse t s))"
    using poll_settle_fallback[of st data a t s] by simp
  show "step s (PollSettled (Response st (Some data))) =
          emit (SetTimeout 1800) (setIsAISpeaking True (setResponse t s))"
    using e by (simp add: speaking_delay_def)
  show "effects (step s (PollSettled (Response st (Some data)))) =
          effects s @ [SetResponse t, SetIsAISpeaking True, SetTimeout speaking_delay]"
    using e by (simp add: emit_simps setter_defs)
next
  assume "ok (Response st (Some data)) \<and>
    get_prop data ''last_response'' = Inr a \<and> \<not> truthy a \<and>
    get_prop data ''reply'' = Inr b \<and> \<not> truthy b"
  then show "step s (PollSettled (Response st (Some data))) = s"
    using poll_settle_no_reply[of st data a b s] by simp
qed

theorem poll_reply_witness:
  "ok (Response 200 (Some (JObj [(''last_response'', JStr ''Stay calm'')]))) \<and>
   get_prop (JObj [(''last_response'', JStr ''Stay calm'')]) ''last_response'' =
     Inr (JStr ''Stay calm'') \<and>
   step initial (PollSettled (Response 200 (Some (JObj [(''last_response'', JStr ''Stay calm'')])))) =
     initial\<lparr>response := ''Stay calm'', isAISpeaking := True,
       effects := [SetResponse ''Stay calm'', SetIsAISpeaking True, SetTimeout 1800]\<rparr> \<and>
   get_prop (JObj [(''last_response'', JStr [])]) ''last_response'' = Inr (JStr []) \<and>
   get_prop (JObj [(''last_response'', JStr [])]) ''reply'' = Inr JUndefined \<and>
   step initial (PollSettled (Response 200 (Some (JObj [(''last_response'', JStr [])])))) =
     initial \<and>
   get_prop (JObj [(''last_response'', JStr []), (''reply'', JStr ''hi'')]) ''last_response'' =
     Inr (JStr []) \<and>
   get_prop (JObj [(''last_response'', JStr []), (''reply'', JStr ''hi'')]) ''reply'' =
     Inr (JStr ''hi'') \<and>
   step initial (PollSettled (Response 200
       (Some (JObj [(''last_response'', JStr []), (''reply'', JStr ''hi'')])))) =
     initial\<lparr>response := ''hi'', isAISpeaking := True,
       effects := [SetResponse ''hi'', SetIsAISpeaking True, SetTimeout 1800]\<rparr>"
  using poll_reply[of 200 "JObj [(''last_response'', JStr ''Stay calm'')]" "''Stay calm''"
      initial JNull JNull]
    poll_reply[of 200 "JObj [(''last_response'', JStr [])]" "[]" initial "JStr []" JUndefined]
    poll_reply[of 200 "JObj [(''last_response'', JStr []), (''reply'', JStr ''hi'')]" "''hi''"
      initial "JStr []" JNull]
  by (simp add: initial_def emit_def setter_defs)

text \<open>
  Claim C3. When the request of a tick is rejected or answered outside 200 to 299, the
  tick ends with the state as it was, but for one line on the console after a rejection:
  nothing is thrown, the response text and the indicator stay, and the interval stays
  set. The next tick of the interval sends its request as ever.
\<close>

theorem failed_poll:
  assumes "\<not> ok r"
  shows "step s (PollSettled r) =
           (if r = Rejected then emit (ConsoleError ''Polling error:'') s else s) \<and>
         response (step s (PollSettled r)) = response s \<and>
         isAISpeaking (step s (PollSettled r)) = isAISpeaking s \<and>
         polling (step s (PollSettled r)) = polling s \<and>
         (polling s \<longrightarrow>
            effects (run s [PollSettled r, IntervalTick]) =
              effects (step s (PollSettled r)) @
              [Fetch ''GET'' (backend @ ''/get_latest_response'') NoBody])"
  using poll_settle_failed[OF assms, of s]
  by (simp add: run_def poll_begin_def emit_simps)

theorem failed_poll_witness:
  "\<not> ok Rejected \<and> \<not> ok (Response 503 None) \<and> polling (poll_mount initial) \<and>
   run (poll_mount initial) [IntervalTick, PollSettled Rejected, IntervalTick] =
     initial\<lparr>polling := True,
       effects := [SetInterval 2500,
         Fetch ''GET'' (backend @ ''/get_latest_response'') NoBody,
         ConsoleError ''Polling error:'',
         Fetch ''GET'' (backend @ ''/get_latest_response'') NoBody]\<rparr> \<and>
   run (poll_mount initial) [IntervalTick, PollSettled (Response 503 None), IntervalTick] =
     initial\<lparr>polling := True,
       effects := [SetInterval 2500,
         Fetch ''GET'' (backend @ ''/get_latest_response'') NoBody,
         Fetch ''GET'' (backend @ ''/get_latest_response'') NoBody]\<rparr>"
  using failed_poll[of Rejected "step (poll_mount initial) IntervalTick"]
    failed_poll[of "Response 503 None" "step (poll_mount initial) IntervalTick"]
  by (simp add: run_def initial_def poll_mount_def poll_begin_def emit_def)



section \<open>The location\<close>











section \<open>Ending the call\<close>

text \<open>
  Claim C7, as the code has it. Ending the call sends the request to stop listening and
  then, whether that request was rejected or answered, calls the parent's
  \<^verbatim>\<open>onEndCall\<close>, which takes the interface away; a rejection is written to the console
  in between. Nothing else changes: the recorder is not stopped by ending the call, only
  by the record button.
\<close>

theorem end_call:
  "run s [ClickEndCall, StopListeningSettled r] = handleEnd r s \<and>
   handleEnd r s =
     s\<lparr>effects := effects s @ [Fetch ''POST'' (backend @ ''/stop_listening'') NoBody] @
          (if r = Rejected then [ConsoleError []] else []) @ [OnEndCall]\<rparr> \<and>
   mediaRecorderRef (handleEnd r s) = mediaRecorderRef s \<and>
   isRecording (handleEnd r s) = isRecording s"
proof -
  have loop: "run s [ClickEndCall, StopListeningSettled r] = handleEnd r s"
    by (simp add: run_def handleEnd_def)
  have only_effects: "handleEnd r s =
     s\<lparr>effects := effects s @ [Fetch ''POST'' (backend @ ''/stop_listening'') NoBody] @
          (if r = Rejected then [ConsoleError []] else []) @ [OnEndCall]\<rparr>"
  proof (cases r)
    case Rejected
    then show ?thesis
      by (simp add: handleEnd_def handleEnd_begin_def handleEnd_settle_def emit_def)
  next
    case (Response st body)
    then show ?thesis
      by (simp add: handleEnd_def handleEnd_begin_def handleEnd_settle_def emit_def)
  qed
  have "mediaRecorderRef (handleEnd r s) = mediaRecorderRef s"
    and "isRecording (handleEnd r s) = isRecording s"
    by (simp_all add: only_effects)
  with loop only_effects show ?thesis by blast
qed

theorem end_call_witness:
  "effects (run initial [ClickEndCall, StopListeningSettled Rejected]) =
     [Fetch ''POST'' (backend @ ''/stop_listening'') NoBody, ConsoleError [], OnEndCall] \<and>
   effects (run initial [ClickEndCall, StopListeningSettled (Response 200 None)]) =
     [Fetch ''POST'' (backend @ ''/stop_listening'') NoBody, OnEndCall]"
  using end_call[of initial Rejected] end_call[of initial "Response 200 None"]
  by (simp add: initial_def)

text \<open>
  The claim as written fails while a recording runs: after the call has ended the
  recorder is still recording and \<^verbatim>\<open>mr.stop()\<close> was never called, where the record
  button would have called it.
\<close>

theorem end_call_counterexample:
  "mediaRecorderRef (run initial
     [ClickRecord, StartSettled (Response 200 None) True,
      ClickEndCall, StopListeningSettled (Response 200 None)]) = Some Recording \<and>
   effects (run initial
     [ClickRecord, StartSettled (Response 200 None) True,
      ClickEndCall, StopListeningSettled (Response 200 None)]) =
     [Fetch ''POST'' (backend @ ''/start_listening'') NoBody, MrStart 2500, SetIsRecording True,
      Fetch ''POST'' (backend @ ''/stop_listening'') NoBody, OnEndCall] \<and>
   effects (run initial
     [ClickRecord, StartSettled (Response 200 None) True, ClickRecord]) =
     [Fetch ''POST'' (backend @ ''/start_listening'') NoBody, MrStart 2500, SetIsRecording True,
      MrStop, SetIsRecording False]"
  by (simp add: run_def initial_def startRecording_begin_def startRecording_settle_def
        stopRecording_def handleEnd_begin_def handleEnd_settle_def setter_defs emit_def)

end
